theory Spec2Isabelle
  imports Complex_Main "HOL-Library.Log_Nat" "HOL-Library.Char_ord" "HOL-Library.List_Lexorder"
begin

section \<open>FinanceFlow: the ledger manager and the handlers that enforce its money rules\<close>

text \<open>
  The program (\<^verbatim>\<open>group5_maincode.py\<close>) keeps its whole state in \<^verbatim>\<open>FinanceManager.data\<close>,
  the value that \<^verbatim>\<open>json.load\<close> produced, and writes it back with \<^verbatim>\<open>json.dump\<close>. The
  model therefore starts from JSON values. A number is a Python \<^verbatim>\<open>int\<close> (exact) or a Python
  \<^verbatim>\<open>float\<close> (an IEEE 754 double): every amount typed into a form is \<^verbatim>\<open>float(amt_str)\<close>.
  Strings are lists of characters, and a dict is the list of its items, looked up from the
  front.
\<close>

subsection \<open>Python floats\<close>

text \<open>
  A double is a finite value (a rational that has 53 significant bits and an exponent in
  range), minus zero, an infinity or NaN. \<open>round64\<close> rounds a rational to the nearest double,
  ties to the even significand, as IEEE 754 addition and Python's \<^verbatim>\<open>float()\<close> do:
  \<open>exponent x\<close> is the integer \<open>e\<close> with \<open>2 powi e \<le> \<bar>x\<bar> < 2 powi (e + 1)\<close>, the spacing of
  the doubles around \<open>x\<close> is \<open>2 powi (e - 52)\<close>, never below \<open>2 powi (- 1074)\<close>, and a result
  of \<open>2 powi 1024\<close> or more overflows.
\<close>

datatype float64 = FNum rat | FNegZero | FPosInf | FNegInf | FNaN

definition exponent :: "rat \<Rightarrow> int" where
  "exponent x =
     (let k = bitlen (fst (quotient_of \<bar>x\<bar>)) - bitlen (snd (quotient_of \<bar>x\<bar>))
      in if 2 powi k \<le> \<bar>x\<bar> then k else k - 1)"

definition round_half_even :: "rat \<Rightarrow> int" where
  "round_half_even m =
     (let f = \<lfloor>m\<rfloor>; r = m - of_int f
      in if r < 1 / 2 then f else if 1 / 2 < r then f + 1 else if even f then f else f + 1)"

definition round64 :: "rat \<Rightarrow> float64" where
  "round64 x =
     (if x = 0 then FNum 0
      else
        let ulp = 2 powi (max (exponent x) (- 1022) - 52);
            n = round_half_even (\<bar>x\<bar> / ulp);
            y = of_int n * ulp
        in if 2 powi 1024 \<le> y then (if 0 < x then FPosInf else FNegInf)
           else if n = 0 then (if 0 < x then FNum 0 else FNegZero)
           else FNum (if 0 < x then y else - y))"

fun fneg :: "float64 \<Rightarrow> float64" where
  "fneg (FNum x) = (if x = 0 then FNegZero else FNum (- x))"
| "fneg FNegZero = FNum 0"
| "fneg FPosInf = FNegInf"
| "fneg FNegInf = FPosInf"
| "fneg FNaN = FNaN"

text \<open>IEEE addition: NaN is contagious, opposite infinities give NaN, an exact sum of zero
  is \<open>+0\<close> unless both operands are \<open>-0\<close>, and every other sum is rounded.\<close>

fun fadd :: "float64 \<Rightarrow> float64 \<Rightarrow> float64" where
  "fadd FNaN b = FNaN"
| "fadd a FNaN = FNaN"
| "fadd FPosInf FNegInf = FNaN"
| "fadd FNegInf FPosInf = FNaN"
| "fadd FPosInf b = FPosInf"
| "fadd a FPosInf = FPosInf"
| "fadd FNegInf b = FNegInf"
| "fadd a FNegInf = FNegInf"
| "fadd FNegZero b = b"
| "fadd a FNegZero = a"
| "fadd (FNum x) (FNum y) = (if x + y = 0 then FNum 0 else round64 (x + y))"

definition fsub :: "float64 \<Rightarrow> float64 \<Rightarrow> float64" where
  "fsub a b = fadd a (fneg b)"

subsection \<open>Python values and the exceptions the code can meet\<close>

datatype json =
    JNull
  | JBool bool
  | JNum int
  | JFloat float64
  | JStr string
  | JArr "json list"
  | JObj "(string \<times> json) list"

datatype py_error =
  KeyError | IndexError | TypeError | AttributeError | ValueError | OverflowError

text \<open>\<^verbatim>\<open>item.get(key, default)\<close>: only a dict has the method.\<close>

fun py_get :: "json \<Rightarrow> string \<Rightarrow> json \<Rightarrow> py_error + json" where
  "py_get (JObj kvs) key dflt = Inr (case map_of kvs key of Some v \<Rightarrow> v | None \<Rightarrow> dflt)"
| "py_get _ key dflt = Inl AttributeError"

text \<open>\<^verbatim>\<open>item[key]\<close> with a string key: \<^verbatim>\<open>KeyError\<close> on a dict without the key,
  \<^verbatim>\<open>TypeError\<close> on every other value.\<close>

fun py_item :: "json \<Rightarrow> string \<Rightarrow> py_error + json" where
  "py_item (JObj kvs) key = (case map_of kvs key of Some v \<Rightarrow> Inr v | None \<Rightarrow> Inl KeyError)"
| "py_item _ key = Inl TypeError"

subsection \<open>Python arithmetic and comparison on numbers\<close>

datatype pynum = NInt int | NFlt float64

text \<open>The number a value stands for in \<^verbatim>\<open>+\<close>, \<^verbatim>\<open>-\<close>, \<^verbatim>\<open><=\<close> and \<^verbatim>\<open>>\<close> against a
  number (\<^verbatim>\<open>True\<close> is the int 1 and \<^verbatim>\<open>False\<close> the int 0 in Python); every other value raises
  \<^verbatim>\<open>TypeError\<close> there.\<close>

fun py_num :: "json \<Rightarrow> pynum option" where
  "py_num (JNum n) = Some (NInt n)"
| "py_num (JBool b) = Some (NInt (if b then 1 else 0))"
| "py_num (JFloat f) = Some (NFlt f)"
| "py_num _ = None"

text \<open>An int that meets a float in \<^verbatim>\<open>+\<close> or \<^verbatim>\<open>-\<close> is converted first, correctly rounded;
  the conversion raises \<^verbatim>\<open>OverflowError\<close> when the int is too large for a double.\<close>

definition to_float :: "int \<Rightarrow> py_error + float64" where
  "to_float n =
     (case round64 (of_int n) of
        FPosInf \<Rightarrow> Inl OverflowError
      | FNegInf \<Rightarrow> Inl OverflowError
      | f \<Rightarrow> Inr f)"

fun as_float :: "pynum \<Rightarrow> py_error + float64" where
  "as_float (NInt n) = to_float n"
| "as_float (NFlt f) = Inr f"

fun py_add :: "pynum \<Rightarrow> pynum \<Rightarrow> py_error + pynum" where
  "py_add (NInt a) (NInt b) = Inr (NInt (a + b))"
| "py_add a b =
     (case as_float a of
        Inl e \<Rightarrow> Inl e
      | Inr x \<Rightarrow> (case as_float b of Inl e \<Rightarrow> Inl e | Inr y \<Rightarrow> Inr (NFlt (fadd x y))))"

fun py_sub :: "pynum \<Rightarrow> pynum \<Rightarrow> py_error + pynum" where
  "py_sub (NInt a) (NInt b) = Inr (NInt (a - b))"
| "py_sub a b =
     (case as_float a of
        Inl e \<Rightarrow> Inl e
      | Inr x \<Rightarrow> (case as_float b of Inl e \<Rightarrow> Inl e | Inr y \<Rightarrow> Inr (NFlt (fsub x y))))"

text \<open>
  Comparisons between numbers never raise and are exact, also between an int and a float.
  \<open>position\<close> places a number on the extended number line (\<open>-1\<close>, \<open>0\<close>, \<open>1\<close> for minus
  infinity, the finite values, plus infinity); NaN has no place and every comparison with it
  is false.
\<close>

fun position :: "pynum \<Rightarrow> (int \<times> rat) option" where
  "position (NInt n) = Some (0, of_int n)"
| "position (NFlt (FNum x)) = Some (0, x)"
| "position (NFlt FNegZero) = Some (0, 0)"
| "position (NFlt FPosInf) = Some (1, 0)"
| "position (NFlt FNegInf) = Some (- 1, 0)"
| "position (NFlt FNaN) = None"

definition py_le :: "pynum \<Rightarrow> pynum \<Rightarrow> bool" where
  "py_le a b =
     (case (position a, position b) of
        (Some (c, x), Some (d, y)) \<Rightarrow> c < d \<or> (c = d \<and> x \<le> y)
      | _ \<Rightarrow> False)"

definition py_lt :: "pynum \<Rightarrow> pynum \<Rightarrow> bool" where
  "py_lt a b =
     (case (position a, position b) of
        (Some (c, x), Some (d, y)) \<Rightarrow> c < d \<or> (c = d \<and> x < y)
      | _ \<Rightarrow> False)"

definition py_gt :: "pynum \<Rightarrow> pynum \<Rightarrow> bool" where
  "py_gt a b = py_lt b a"

definition num_eq :: "pynum \<Rightarrow> pynum \<Rightarrow> bool" where
  "num_eq a b =
     (case (position a, position b) of
        (Some p, Some q) \<Rightarrow> p = q
      | _ \<Rightarrow> False)"

subsection \<open>The store and its persisted document\<close>

text \<open>
  \<^verbatim>\<open>self.data\<close> after \<^verbatim>\<open>__init__\<close> is a dict whose four keys hold lists; \<open>rest\<close> keeps the
  other top-level keys of a loaded document, which no method reads. \<open>saved\<close> is the sequence
  of documents handed to \<^verbatim>\<open>json.dump\<close> by \<^verbatim>\<open>save_data\<close> since start-up, oldest first:
  the document on disk is the last of them that was written successfully.
\<close>

record ledger =
  incomes :: "json list"
  expenses :: "json list"
  budgets :: "json list"
  goals :: "json list"
  rest :: "(string \<times> json) list"

record manager = ledger +
  saved :: "ledger list"

text \<open>What \<^verbatim>\<open>__init__\<close> finds at \<^verbatim>\<open>file_path\<close>: no file, a file that \<^verbatim>\<open>open\<close> or
  \<^verbatim>\<open>json.load\<close> fails on, or a file holding a JSON value.\<close>

datatype disk_file = Missing | Unparsable | Parsed json

definition snapshot :: "manager \<Rightarrow> ledger" where
  "snapshot s = \<lparr>incomes = incomes s, expenses = expenses s, budgets = budgets s,
                 goals = goals s, rest = rest s\<rparr>"

definition save_data :: "manager \<Rightarrow> manager" where
  "save_data s = s\<lparr>saved := saved s @ [snapshot s]\<rparr>"

definition empty_data :: manager where
  "empty_data = \<lparr>incomes = [], expenses = [], budgets = [], goals = [], rest = [], saved = []\<rparr>"

definition data_keys :: "string list" where
  "data_keys = [''incomes'', ''expenses'', ''budgets'', ''goals'']"

text \<open>\<^verbatim>\<open>self.data[key]\<close> for one of the four keys.\<close>

definition field :: "string \<Rightarrow> manager \<Rightarrow> json list" where
  "field key s =
     (if key = ''incomes'' then incomes s
      else if key = ''expenses'' then expenses s
      else if key = ''budgets'' then budgets s
      else goals s)"

text \<open>The loop body of \<^verbatim>\<open>__init__\<close>: \<^verbatim>\<open>val = self.data.get(key, None)\<close>; a list is kept,
  a dict becomes \<^verbatim>\<open>[val]\<close>, anything else (also an absent key) becomes \<^verbatim>\<open>[]\<close>.\<close>

fun shape :: "json option \<Rightarrow> json list" where
  "shape (Some (JArr xs)) = xs"
| "shape (Some (JObj r)) = [JObj r]"
| "shape _ = []"

text \<open>The \<^verbatim>\<open>try\<close> block after a successful parse: \<^verbatim>\<open>self.data.get\<close> raises
  \<^verbatim>\<open>AttributeError\<close> when the document is not a dict.\<close>

fun shape_fields :: "json \<Rightarrow> py_error + manager" where
  "shape_fields (JObj kvs) =
     Inr \<lparr>incomes = shape (map_of kvs ''incomes''),
          expenses = shape (map_of kvs ''expenses''),
          budgets = shape (map_of kvs ''budgets''),
          goals = shape (map_of kvs ''goals''),
          rest = filter (\<lambda>kv. fst kv \<notin> set data_keys) kvs,
          saved = []\<rparr>"
| "shape_fields _ = Inl AttributeError"

text \<open>\<^verbatim>\<open>FinanceManager.__init__\<close>.\<close>

definition FinanceManager_init :: "disk_file \<Rightarrow> manager" where
  "FinanceManager_init f =
     (case f of
        Missing \<Rightarrow> save_data empty_data
      | Unparsable \<Rightarrow> save_data empty_data
      | Parsed doc \<Rightarrow>
          (case shape_fields doc of
             Inr s \<Rightarrow> s
           | Inl e \<Rightarrow> save_data empty_data))"

subsection \<open>Totals\<close>

text \<open>\<^verbatim>\<open>sum(item.get("amount", 0) for item in items)\<close>: the running total starts at the int
  0 and takes each amount in turn with Python's \<^verbatim>\<open>+\<close>, as \<^verbatim>\<open>sum\<close> does.\<close>

fun sum_amounts :: "pynum \<Rightarrow> json list \<Rightarrow> py_error + pynum" where
  "sum_amounts acc [] = Inr acc"
| "sum_amounts acc (item # items) =
     (case py_get item ''amount'' (JNum 0) of
        Inl e \<Rightarrow> Inl e
      | Inr v \<Rightarrow>
          (case py_num v of
             None \<Rightarrow> Inl TypeError
           | Some n \<Rightarrow>
               (case py_add acc n of
                  Inl e \<Rightarrow> Inl e
                | Inr acc' \<Rightarrow> sum_amounts acc' items)))"

definition get_total_income :: "manager \<Rightarrow> py_error + pynum" where
  "get_total_income s = sum_amounts (NInt 0) (incomes s)"

definition get_total_expense :: "manager \<Rightarrow> py_error + pynum" where
  "get_total_expense s = sum_amounts (NInt 0) (expenses s)"

definition get_available_funds :: "manager \<Rightarrow> py_error + pynum" where
  "get_available_funds s =
     (case get_total_income s of
        Inl e \<Rightarrow> Inl e
      | Inr ti \<Rightarrow>
          (case get_total_expense s of
             Inl e \<Rightarrow> Inl e
           | Inr te \<Rightarrow> py_sub ti te))"

text \<open>\<^verbatim>\<open>can_add_expense(amount)\<close> for an amount that is a number.\<close>

definition can_add_expense :: "manager \<Rightarrow> pynum \<Rightarrow> py_error + bool" where
  "can_add_expense s amount =
     (case get_available_funds s of
        Inl e \<Rightarrow> Inl e
      | Inr funds \<Rightarrow> Inr (py_le amount funds))"

subsection \<open>Category text\<close>

text \<open>
  \<^verbatim>\<open>normalize_category(name) = name.strip().capitalize()\<close>. The two string methods are
  Python's own and depend on the Unicode tables, so the model takes them as parameters:
  \<open>strip py\<close> and \<open>capitalize py\<close>. \<open>ascii_text\<close> is what they compute on ASCII text:
  \<^verbatim>\<open>strip\<close> removes the leading and trailing characters for which \<^verbatim>\<open>str.isspace()\<close> holds,
  \<^verbatim>\<open>capitalize\<close> upper-cases the first character and lower-cases the others.
\<close>

record str_methods =
  strip :: "string \<Rightarrow> string"
  capitalize :: "string \<Rightarrow> string"

definition normalize_category :: "str_methods \<Rightarrow> string \<Rightarrow> string" where
  "normalize_category py name = capitalize py (strip py name)"

definition is_space :: "char \<Rightarrow> bool" where
  "is_space c \<longleftrightarrow> c \<in> set [CHR 0x09, CHR 0x0A, CHR 0x0B, CHR 0x0C, CHR 0x0D,
                              CHR 0x1C, CHR 0x1D, CHR 0x1E, CHR 0x1F, CHR 0x20]"

definition ascii_strip :: "string \<Rightarrow> string" where
  "ascii_strip t = rev (dropWhile is_space (rev (dropWhile is_space t)))"

definition to_upper :: "char \<Rightarrow> char" where
  "to_upper c =
     (case map_of (zip ''abcdefghijklmnopqrstuvwxyz'' ''ABCDEFGHIJKLMNOPQRSTUVWXYZ'') c of
        Some u \<Rightarrow> u | None \<Rightarrow> c)"

definition to_lower :: "char \<Rightarrow> char" where
  "to_lower c =
     (case map_of (zip ''ABCDEFGHIJKLMNOPQRSTUVWXYZ'' ''abcdefghijklmnopqrstuvwxyz'') c of
        Some l \<Rightarrow> l | None \<Rightarrow> c)"

fun ascii_capitalize :: "string \<Rightarrow> string" where
  "ascii_capitalize [] = []"
| "ascii_capitalize (c # cs) = to_upper c # map to_lower cs"

definition ascii_text :: str_methods where
  "ascii_text = \<lparr>strip = ascii_strip, capitalize = ascii_capitalize\<rparr>"

subsection \<open>Manager operations\<close>

text \<open>\<^verbatim>\<open>sum(e["amount"] for e in expenses if e["category"] == category)\<close>: the subscripts
  raise on a record without the key; a stored value equals the text \<open>category\<close> only when it
  is that string.\<close>

fun sum_category :: "string \<Rightarrow> pynum \<Rightarrow> json list \<Rightarrow> py_error + pynum" where
  "sum_category category acc [] = Inr acc"
| "sum_category category acc (e # es) =
     (case py_item e ''category'' of
        Inl err \<Rightarrow> Inl err
      | Inr c \<Rightarrow>
          if c = JStr category then
            (case py_item e ''amount'' of
               Inl err \<Rightarrow> Inl err
             | Inr v \<Rightarrow>
                 (case py_num v of
                    None \<Rightarrow> Inl TypeError
                  | Some n \<Rightarrow>
                      (case py_add acc n of
                         Inl err \<Rightarrow> Inl err
                       | Inr acc' \<Rightarrow> sum_category category acc' es)))
          else sum_category category acc es)"

definition get_category_expense :: "manager \<Rightarrow> string \<Rightarrow> py_error + pynum" where
  "get_category_expense s category = sum_category category (NInt 0) (expenses s)"

text \<open>The add operations; \<open>today\<close> is \<^verbatim>\<open>date.today().isoformat()\<close>. The amount is stored as
  the caller passed it.\<close>

definition dated_entry :: "string \<Rightarrow> json \<Rightarrow> string \<Rightarrow> json" where
  "dated_entry category amount today =
     JObj [(''category'', JStr category), (''amount'', amount), (''date'', JStr today)]"

definition add_income :: "string \<Rightarrow> json \<Rightarrow> string \<Rightarrow> manager \<Rightarrow> manager" where
  "add_income category amount today s =
     save_data (s\<lparr>incomes := incomes s @ [dated_entry category amount today]\<rparr>)"

definition add_expense :: "string \<Rightarrow> json \<Rightarrow> string \<Rightarrow> manager \<Rightarrow> manager" where
  "add_expense category amount today s =
     save_data (s\<lparr>expenses := expenses s @ [dated_entry category amount today]\<rparr>)"

definition add_budget :: "string \<Rightarrow> json \<Rightarrow> manager \<Rightarrow> manager" where
  "add_budget category amount s =
     save_data (s\<lparr>budgets := budgets s @ [JObj [(''category'', JStr category), (''amount'', amount)]]\<rparr>)"

definition add_goal :: "string \<Rightarrow> json \<Rightarrow> manager \<Rightarrow> manager" where
  "add_goal name amount s =
     save_data (s\<lparr>goals := goals s @ [JObj [(''name'', JStr name), (''amount'', amount)]]\<rparr>)"

text \<open>
  \<^verbatim>\<open>categories()\<close> collects \<^verbatim>\<open>item.get("category", "")\<close> in a set and sorts it. The set is
  the list of its members in insertion order: \<^verbatim>\<open>add\<close> raises \<^verbatim>\<open>TypeError\<close> on a list or
  dict (unhashable) and keeps the older of two members that are the same object or equal in
  Python (\<^verbatim>\<open>1 == True == 1.0\<close>; the NaN of a loaded document is one object). \<^verbatim>\<open>sorted\<close>
  compares its members with \<^verbatim>\<open><\<close>: strings by code point, numbers by value, and any other
  pair raises \<^verbatim>\<open>TypeError\<close>; up to one member nothing is compared. Numbers are sorted by
  insertion; with a NaN among them Python's order depends on the order in which the set
  yields its members, which the model does not follow.
\<close>

fun hashable :: "json \<Rightarrow> bool" where
  "hashable (JArr xs) = False"
| "hashable (JObj kvs) = False"
| "hashable _ = True"

definition py_eq :: "json \<Rightarrow> json \<Rightarrow> bool" where
  "py_eq u v =
     (case (py_num u, py_num v) of
        (Some a, Some b) \<Rightarrow> u = v \<or> num_eq a b
      | (None, None) \<Rightarrow> u = v
      | _ \<Rightarrow> False)"

fun add_categories :: "json list \<Rightarrow> json list \<Rightarrow> py_error + json list" where
  "add_categories cats [] = Inr cats"
| "add_categories cats (item # items) =
     (case py_get item ''category'' (JStr []) of
        Inl e \<Rightarrow> Inl e
      | Inr v \<Rightarrow>
          if hashable v
          then add_categories (if list_ex (\<lambda>u. py_eq u v) cats then cats else cats @ [v]) items
          else Inl TypeError)"

fun is_str :: "json \<Rightarrow> bool" where
  "is_str (JStr t) = True"
| "is_str _ = False"

fun str_of :: "json \<Rightarrow> string" where
  "str_of (JStr t) = t"
| "str_of _ = []"

fun json_lt :: "json \<Rightarrow> json \<Rightarrow> bool" where
  "json_lt u v = (case (py_num u, py_num v) of (Some a, Some b) \<Rightarrow> py_lt a b | _ \<Rightarrow> False)"

fun insert_number :: "json \<Rightarrow> json list \<Rightarrow> json list" where
  "insert_number v [] = [v]"
| "insert_number v (u # us) = (if json_lt v u then v # u # us else u # insert_number v us)"

definition py_sorted :: "json list \<Rightarrow> py_error + json list" where
  "py_sorted xs =
     (if length xs \<le> 1 then Inr xs
      else if list_all is_str xs then Inr (map JStr (sort (map str_of xs)))
      else if list_all (\<lambda>v. py_num v \<noteq> None) xs then Inr (foldr insert_number xs [])
      else Inl TypeError)"

definition categories :: "manager \<Rightarrow> py_error + json list" where
  "categories s =
     (case add_categories [] (incomes s) of
        Inl e \<Rightarrow> Inl e
      | Inr cats \<Rightarrow>
          (case add_categories cats (expenses s) of
             Inl e \<Rightarrow> Inl e
           | Inr cats' \<Rightarrow> py_sorted cats'))"

text \<open>\<^verbatim>\<open>del self.data['goals'][index]\<close>: Python counts a negative index from the end and
  raises \<^verbatim>\<open>IndexError\<close> outside \<open>-n \<dots> n-1\<close>; the handler swallows it, before
  \<^verbatim>\<open>save_data\<close> is reached.\<close>

definition delete_goal :: "int \<Rightarrow> manager \<Rightarrow> manager" where
  "delete_goal index s =
     (let n = int (length (goals s));
          j = (if index < 0 then index + n else index)
      in if 0 \<le> j \<and> j < n
         then save_data (s\<lparr>goals := take (nat j) (goals s) @ drop (Suc (nat j)) (goals s)\<rparr>)
         else s)"

definition achieve_goal :: "int \<Rightarrow> manager \<Rightarrow> json option \<times> manager" where
  "achieve_goal index s =
     (let n = int (length (goals s));
          j = (if index < 0 then index + n else index)
      in if 0 \<le> j \<and> j < n
         then (Some (goals s ! nat j),
               save_data (s\<lparr>goals := take (nat j) (goals s) @ drop (Suc (nat j)) (goals s)\<rparr>))
         else (None, s))"

definition achieve_all_goals :: "manager \<Rightarrow> json list \<times> manager" where
  "achieve_all_goals s = (goals s, save_data (s\<lparr>goals := []\<rparr>))"

definition delete_all_goals :: "manager \<Rightarrow> manager" where
  "delete_all_goals s = save_data (s\<lparr>goals := []\<rparr>)"

subsection \<open>The handlers that call the manager\<close>

text \<open>
  The funds, budget and goal checks live in the Tk handlers. Each handler is modelled up to
  its last call into the manager; message boxes and redrawing are left out. An exception that
  leaves the handler is the outcome \<open>Raised\<close>, with the store as it was at that moment.
\<close>

datatype outcome = Done | NoAction | InputError | InsufficientFunds | BudgetExceeded | Raised py_error

text \<open>\<^verbatim>\<open>next((b["amount"] for b in budgets if normalize_category(b["category"]) == norm_cat), 0)\<close>:
  the budgets are visited in order up to the first match; \<^verbatim>\<open>strip\<close> exists on strings only.\<close>

fun first_budget :: "str_methods \<Rightarrow> string \<Rightarrow> json list \<Rightarrow> py_error + json" where
  "first_budget py norm_cat [] = Inr (JNum 0)"
| "first_budget py norm_cat (b # bs) =
     (case py_item b ''category'' of
        Inl e \<Rightarrow> Inl e
      | Inr (JStr name) \<Rightarrow>
          if normalize_category py name = norm_cat then py_item b ''amount''
          else first_budget py norm_cat bs
      | Inr _ \<Rightarrow> Inl AttributeError)"

text \<open>\<^verbatim>\<open>ExpenseFrame.add_expense\<close>. \<open>entry_cat\<close> is the text of the category entry and \<open>amt\<close>
  the value of \<^verbatim>\<open>float(amt_str)\<close>, \<open>None\<close> when it raises \<^verbatim>\<open>ValueError\<close>. The checks are
  Python's: \<^verbatim>\<open>amt <= 0\<close>, \<^verbatim>\<open>budget_amt > 0\<close> and \<^verbatim>\<open>current_spent + amt > budget_amt\<close>.\<close>

definition ExpenseFrame_add_expense ::
  "str_methods \<Rightarrow> string \<Rightarrow> float64 option \<Rightarrow> string \<Rightarrow> manager \<Rightarrow> outcome \<times> manager" where
  "ExpenseFrame_add_expense py entry_cat amt today s =
     (let cat = strip py entry_cat in
      if cat = [] then (InputError, s)
      else case amt of
        None \<Rightarrow> (InputError, s)
      | Some a \<Rightarrow>
          if py_le (NFlt a) (NInt 0) then (InputError, s)
          else let norm_cat = normalize_category py cat in
            (case can_add_expense s (NFlt a) of
               Inl e \<Rightarrow> (Raised e, s)
             | Inr ok \<Rightarrow>
                 if \<not> ok then (InsufficientFunds, s)
                 else (case first_budget py norm_cat (budgets s) of
                    Inl e \<Rightarrow> (Raised e, s)
                  | Inr b \<Rightarrow>
                      (case py_num b of
                         None \<Rightarrow> (Raised TypeError, s)
                       | Some budget_amt \<Rightarrow>
                           if py_gt budget_amt (NInt 0) then
                             (case get_category_expense s norm_cat of
                                Inl e \<Rightarrow> (Raised e, s)
                              | Inr current_spent \<Rightarrow>
                                  (case py_add current_spent (NFlt a) of
                                     Inl e \<Rightarrow> (Raised e, s)
                                   | Inr spent_after \<Rightarrow>
                                       if py_gt spent_after budget_amt then (BudgetExceeded, s)
                                       else (Done, add_expense cat (JFloat a) today s)))
                           else (Done, add_expense cat (JFloat a) today s)))))"

text \<open>
  How the goal handlers read a goal:
  \<^verbatim>\<open>goal.get('name') if isinstance(goal, dict) and 'name' in goal else str(goal)\<close> and
  \<^verbatim>\<open>goal.get('amount') if isinstance(goal, dict) and 'amount' in goal else 0\<close>.
  \<open>repr\<close> stands for Python's built-in \<^verbatim>\<open>str()\<close> on a value that is not a string; on a
  string \<^verbatim>\<open>str()\<close> and the f-string both give the string itself.
\<close>

fun py_str :: "(json \<Rightarrow> string) \<Rightarrow> json \<Rightarrow> string" where
  "py_str repr (JStr t) = t"
| "py_str repr v = repr v"

fun goal_name :: "(json \<Rightarrow> string) \<Rightarrow> json \<Rightarrow> json" where
  "goal_name repr (JObj kvs) =
     (case map_of kvs ''name'' of Some v \<Rightarrow> v | None \<Rightarrow> JStr (py_str repr (JObj kvs)))"
| "goal_name repr goal = JStr (py_str repr goal)"

fun goal_amt :: "json \<Rightarrow> json" where
  "goal_amt (JObj kvs) = (case map_of kvs ''amount'' of Some v \<Rightarrow> v | None \<Rightarrow> JNum 0)"
| "goal_amt goal = JNum 0"

text \<open>The f-string \<^verbatim>\<open>f'Goal ("{goal_name}")'\<close>.\<close>

definition goal_category :: "(json \<Rightarrow> string) \<Rightarrow> json \<Rightarrow> string" where
  "goal_category repr name = ''Goal ('' @ [CHR 0x22] @ py_str repr name @ [CHR 0x22] @ '')''"

text \<open>\<^verbatim>\<open>SummaryFrame.achieve_goal\<close>; the check is \<^verbatim>\<open>goal_amt > balance\<close>.\<close>

definition SummaryFrame_achieve_goal ::
  "(json \<Rightarrow> string) \<Rightarrow> string \<Rightarrow> int \<Rightarrow> manager \<Rightarrow> outcome \<times> manager" where
  "SummaryFrame_achieve_goal repr today idx s =
     (if idx < 0 \<or> idx \<ge> int (length (goals s)) then (NoAction, s)
      else let goal = goals s ! nat idx in
        (case get_available_funds s of
           Inl e \<Rightarrow> (Raised e, s)
         | Inr balance \<Rightarrow>
             (case py_num (goal_amt goal) of
                None \<Rightarrow> (Raised TypeError, s)
              | Some a \<Rightarrow>
                  if py_gt a balance then (InsufficientFunds, s)
                  else (Done, add_expense (goal_category repr (goal_name repr goal))
                                (goal_amt goal) today (delete_goal idx s)))))"

text \<open>\<^verbatim>\<open>SummaryFrame.achieve_all_goals\<close>: the \<^verbatim>\<open>for\<close> loop over the copied goal list, with
  the running \<open>balance\<close> and the two name lists, then the handler itself. The check is
  \<^verbatim>\<open>goal_amt <= balance\<close>; \<^verbatim>\<open>balance -= goal_amt\<close> comes after the two manager calls.\<close>

fun achieve_loop ::
  "(json \<Rightarrow> string) \<Rightarrow> string \<Rightarrow> json list \<Rightarrow> pynum \<Rightarrow> json list \<Rightarrow> json list \<Rightarrow> manager
     \<Rightarrow> (py_error + json list \<times> json list) \<times> manager" where
  "achieve_loop repr today [] balance achieved not_achieved s =
     (Inr (achieved, not_achieved), s)"
| "achieve_loop repr today (goal # gs) balance achieved not_achieved s =
     (case py_num (goal_amt goal) of
        None \<Rightarrow> (Inl TypeError, s)
      | Some a \<Rightarrow>
          if py_le a balance
          then (case py_sub balance a of
                  Inl e \<Rightarrow>
                    (Inl e, add_expense (goal_category repr (goal_name repr goal)) (goal_amt goal)
                              today (delete_goal 0 s))
                | Inr balance' \<Rightarrow>
                    achieve_loop repr today gs balance'
                      (achieved @ [goal_name repr goal]) not_achieved
                      (add_expense (goal_category repr (goal_name repr goal)) (goal_amt goal)
                         today (delete_goal 0 s)))
          else achieve_loop repr today gs balance
                 achieved (not_achieved @ [goal_name repr goal]) s)"

definition SummaryFrame_achieve_all_goals ::
  "(json \<Rightarrow> string) \<Rightarrow> string \<Rightarrow> manager \<Rightarrow> (py_error + json list \<times> json list) \<times> manager" where
  "SummaryFrame_achieve_all_goals repr today s =
     (case get_available_funds s of
        Inl e \<Rightarrow> (Inl e, s)
      | Inr balance \<Rightarrow> achieve_loop repr today (goals s) balance [] [] s)"

subsection \<open>Notions used to state the properties\<close>

text \<open>A scalar is a value that is neither a record (dict) nor a sequence (list).\<close>

fun is_scalar :: "json \<Rightarrow> bool" where
  "is_scalar (JArr xs) = False"
| "is_scalar (JObj kvs) = False"
| "is_scalar _ = True"

fun is_dict :: "json \<Rightarrow> bool" where
  "is_dict (JObj kvs) = True"
| "is_dict _ = False"




text \<open>The raw category text of an income or expense record; a record without the field
  counts under the empty text. \<open>category_is_text\<close> holds of a record whose category, when
  present, is text.\<close>

fun category_text :: "json \<Rightarrow> string" where
  "category_text (JObj kvs) = (case map_of kvs ''category'' of Some (JStr t) \<Rightarrow> t | _ \<Rightarrow> [])"
| "category_text _ = []"

fun category_is_text :: "json \<Rightarrow> bool" where
  "category_is_text (JObj kvs) =
     (case map_of kvs ''category'' of Some (JStr t) \<Rightarrow> True | Some _ \<Rightarrow> False | None \<Rightarrow> True)"
| "category_is_text _ = False"






fun is_nan :: "pynum \<Rightarrow> bool" where
  "is_nan (NFlt FNaN) = True"
| "is_nan _ = False"

text \<open>\<open>ys\<close> is \<open>xs\<close> without its element at position \<open>p\<close>: the elements before \<open>p\<close> stay
  and the later ones move down by one.\<close>

definition removed_at :: "nat \<Rightarrow> 'a list \<Rightarrow> 'a list \<Rightarrow> bool" where
  "removed_at p xs ys \<longleftrightarrow>
     Suc (length ys) = length xs \<and>
     (\<forall>k < length ys. ys ! k = (if k < p then xs ! k else xs ! Suc k))"

section \<open>Properties\<close>

subsection \<open>Rounding to a double\<close>

lemma of_int_ge_powi:
  assumes "0 < p"
  shows "(2::rat) powi (bitlen p - 1) \<le> of_int p" and "of_int p < (2::rat) powi bitlen p"
proof -
  from bitlen_bounds [OF assms] have lo: "2 ^ nat (bitlen p - 1) \<le> p" and hi: "p < 2 ^ nat (bitlen p)"
    by simp_all
  have b1: "1 \<le> bitlen p"
    using assms bitlen_eq_zero_iff [of p] bitlen_nonneg [of p] by linarith
  have "(2::rat) powi (bitlen p - 1) = of_int (2 ^ nat (bitlen p - 1))"
    using b1 by (simp add: power_int_def)
  also have "\<dots> \<le> of_int p" using lo by (simp only: of_int_le_iff)
  finally show "(2::rat) powi (bitlen p - 1) \<le> of_int p" .
  have "(of_int p :: rat) < of_int (2 ^ nat (bitlen p))" using hi by (simp only: of_int_less_iff)
  also have "\<dots> = 2 powi bitlen p"
    using b1 by (simp add: power_int_def)
  finally show "of_int p < (2::rat) powi bitlen p" .
qed

lemma exponent_bounds:
  assumes "x \<noteq> 0"
  shows "2 powi exponent x \<le> \<bar>x\<bar>" and "\<bar>x\<bar> < 2 powi (exponent x + 1)"
proof -
  define p where "p = fst (quotient_of \<bar>x\<bar>)"
  define q where "q = snd (quotient_of \<bar>x\<bar>)"
  define k where "k = bitlen p - bitlen q"
  have q: "0 < q" unfolding q_def by (rule quotient_of_denom_pos')
  have x: "\<bar>x\<bar> = of_int p / of_int q"
    unfolding p_def q_def by (intro quotient_of_div) simp
  have "0 < \<bar>x\<bar>" using assms by simp
  with x q have p: "0 < p" by (simp add: zero_less_divide_iff)
  note P = of_int_ge_powi [OF p] and Q = of_int_ge_powi [OF q]
  have qpos: "(0::rat) < of_int q" using q by simp
  have "\<bar>x\<bar> < 2 powi bitlen p / 2 powi (bitlen q - 1)"
    unfolding x using P(2) Q(1) qpos p
    by (intro frac_less) simp_all
  also have "\<dots> = 2 powi (k + 1)"
    unfolding k_def by (simp add: power_int_diff [symmetric] algebra_simps)
  finally have hi: "\<bar>x\<bar> < 2 powi (k + 1)" .
  have "2 powi (k - 1) = 2 powi (bitlen p - 1) / (2::rat) powi bitlen q"
    unfolding k_def by (simp add: power_int_diff [symmetric] algebra_simps)
  also have "\<dots> < \<bar>x\<bar>"
    unfolding x using P(1) Q(2) qpos
    by (intro frac_less2) simp_all
  finally have lo: "2 powi (k - 1) < \<bar>x\<bar>" .
  have e: "exponent x = (if 2 powi k \<le> \<bar>x\<bar> then k else k - 1)"
    by (simp add: exponent_def Let_def k_def p_def q_def)
  show "2 powi exponent x \<le> \<bar>x\<bar>"
    using lo by (simp add: e)
  show "\<bar>x\<bar> < 2 powi (exponent x + 1)"
    using hi by (auto simp add: e not_le)
qed

lemma exponent_unique:
  assumes "2 powi e \<le> \<bar>x\<bar>" and "\<bar>x\<bar> < 2 powi (e + 1)"
  shows "exponent x = e"
proof -
  have "(0::rat) < 2 powi e" by simp
  also note assms(1)
  finally have "x \<noteq> 0" by simp
  note b = exponent_bounds [OF this]
  have "(2::rat) powi e < 2 powi (exponent x + 1)" using assms(1) b(2) by simp
  then have "e < exponent x + 1"
    using power_int_increasing [of "exponent x + 1" e "2::rat"] by (cases "e < exponent x + 1") auto
  moreover have "(2::rat) powi exponent x < 2 powi (e + 1)" using assms(2) b(1) by simp
  then have "exponent x < e + 1"
    using power_int_increasing [of "e + 1" "exponent x" "2::rat"] by (cases "exponent x < e + 1") auto
  ultimately show ?thesis by simp
qed

lemma round_half_even_nearest:
  assumes "\<bar>of_int n - m\<bar> < 1 / 2 \<or> (\<bar>of_int n - m\<bar> = 1 / 2 \<and> even n)"
  shows "round_half_even m = n"
proof -
  define f where "f = \<lfloor>m\<rfloor>"
  define r where "r = m - of_int f"
  define d where "d = n - f"
  have r: "0 \<le> r" "r < 1" unfolding r_def f_def by linarith+
  have nm: "of_int n - m = of_int d - r" unfolding d_def r_def by simp
  have rhe: "round_half_even m =
      (if r < 1 / 2 then f else if 1 / 2 < r then f + 1 else if even f then f else f + 1)"
    by (simp add: round_half_even_def Let_def f_def r_def)
  from assms have near: "\<bar>of_int d - r\<bar> < 1 / 2 \<or> (\<bar>of_int d - r\<bar> = 1 / 2 \<and> even n)"
    by (simp only: nm)
  then have "\<bar>of_int d - r\<bar> \<le> 1 / 2" by auto
  with r have "- 1 < (of_int d :: rat)" "(of_int d :: rat) < 2" by linarith+
  then have "-1 < d" "d < 2" by linarith+
  then consider "d = 0" | "d = 1" by linarith
  then show ?thesis
  proof cases
    case 1
    then have n: "n = f" unfolding d_def by simp
    from near 1 r have "r < 1 / 2 \<or> (r = 1 / 2 \<and> even f)"
      by (simp add: n)
    then show ?thesis unfolding rhe n by auto
  next
    case 2
    then have n: "n = f + 1" unfolding d_def by simp
    from near 2 r have "1 / 2 < r \<or> (r = 1 / 2 \<and> odd f)"
      by (auto simp: n abs_if split: if_splits)
    then show ?thesis unfolding rhe n by auto
  qed
qed

lemma round64_nearest:
  assumes "2 powi e \<le> \<bar>x\<bar>" and "\<bar>x\<bar> < 2 powi (e + 1)"
    and "u = 2 powi (max e (- 1022) - 52)"
    and "\<bar>of_int n - \<bar>x\<bar> / u\<bar> < 1 / 2 \<or> (\<bar>of_int n - \<bar>x\<bar> / u\<bar> = 1 / 2 \<and> even n)"
  shows "round64 x =
           (if 2 powi 1024 \<le> of_int n * u then (if 0 < x then FPosInf else FNegInf)
            else if n = 0 then (if 0 < x then FNum 0 else FNegZero)
            else FNum (if 0 < x then of_int n * u else - (of_int n * u)))"
proof -
  have "(0::rat) < 2 powi e" by simp
  also note assms(1)
  finally have "x \<noteq> 0" by simp
  then have xz: "(x = 0) = False" by simp
  have ex: "exponent x = e" using assms(1,2) by (rule exponent_unique)
  have rn: "round_half_even (\<bar>x\<bar> / u) = n" using assms(4) by (rule round_half_even_nearest)
  show ?thesis
    by (simp only: round64_def Let_def xz if_False ex assms(3) [symmetric] rn)
qed

subsection \<open>Python numbers\<close>

lemma round64_of_int:
  assumes "\<bar>n\<bar> < 2 ^ 53"
  shows "round64 (of_int n) = FNum (of_int n)"
proof (cases "n = 0")
  case True
  then show ?thesis by (simp add: round64_def)
next
  case False
  define a where "a = \<bar>n\<bar>"
  define e where "e = bitlen a - 1"
  have a: "0 < a" "a < 2 ^ 53" using False assms by (simp_all add: a_def)
  have abs_eq: "\<bar>rat_of_int n\<bar> = of_int a" by (simp add: a_def)
  from of_int_ge_powi [OF a(1)]
  have lo: "2 powi e \<le> (of_int a :: rat)" and hi: "(of_int a :: rat) < 2 powi (e + 1)"
    by (simp_all add: e_def)
  have e0: "0 \<le> e"
    using a(1) bitlen_eq_zero_iff [of a] bitlen_nonneg [of a] by (simp add: e_def)
  have "(of_int a :: rat) < 2 powi 53" using a(2) by (simp add: of_int_less_iff [symmetric] del: of_int_less_iff)
  with lo have "(2::rat) powi e < 2 powi 53" by simp
  then have e52: "e \<le> 52"
    using power_int_increasing [of 53 e "2::rat"] by (cases "e \<le> 52") auto
  define N where "N = a * 2 ^ nat (52 - e)"
  define u :: rat where "u = 2 powi (max e (- 1022) - 52)"
  have u: "u = 1 / 2 ^ nat (52 - e)"
    using e0 e52 by (simp add: u_def power_int_def inverse_eq_divide power_one_over)
  have Nu: "of_int N = \<bar>rat_of_int n\<bar> / u"
    by (simp add: N_def u abs_eq)
  have Nval: "of_int N * u = (of_int a :: rat)"
    by (simp add: N_def u)
  have "(of_int a :: rat) < 2 powi 1024"
    using \<open>(of_int a :: rat) < 2 powi 53\<close> power_int_increasing [of 53 1024 "2::rat"] by simp
  then have small: "\<not> 2 powi 1024 \<le> of_int N * u" by (simp add: Nval)
  have N0: "N \<noteq> 0" using a(1) by (simp add: N_def)
  have "round64 (of_int n) =
          (if 2 powi 1024 \<le> of_int N * u then (if 0 < rat_of_int n then FPosInf else FNegInf)
           else if N = 0 then (if 0 < rat_of_int n then FNum 0 else FNegZero)
           else FNum (if 0 < rat_of_int n then of_int N * u else - (of_int N * u)))"
  proof (rule round64_nearest [of e _ u N])
    show "2 powi e \<le> \<bar>rat_of_int n\<bar>" using lo by (simp only: abs_eq)
    show "\<bar>rat_of_int n\<bar> < 2 powi (e + 1)" using hi by (simp only: abs_eq)
    show "u = 2 powi (max e (- 1022) - 52)" by (rule u_def)
    show "\<bar>of_int N - \<bar>rat_of_int n\<bar> / u\<bar> < 1 / 2
            \<or> (\<bar>of_int N - \<bar>rat_of_int n\<bar> / u\<bar> = 1 / 2 \<and> even N)"
      by (simp only: Nu) simp
  qed
  also have "\<dots> = FNum (of_int n)"
    using small N0 by (simp add: Nval a_def)
  finally show ?thesis .
qed

lemma to_float_small: "\<bar>n\<bar> < 2 ^ 53 \<Longrightarrow> to_float n = Inr (FNum (of_int n))"
  by (simp add: to_float_def round64_of_int)

lemma py_le_int [simp]: "py_le (NInt a) (NInt b) \<longleftrightarrow> a \<le> b"
  by (simp add: py_le_def)

lemma py_lt_int [simp]: "py_lt (NInt a) (NInt b) \<longleftrightarrow> a < b"
  by (simp add: py_lt_def)

lemma py_gt_int [simp]: "py_gt (NInt a) (NInt b) \<longleftrightarrow> b < a"
  by (simp add: py_gt_def)

lemma py_gt_not_le: "py_gt a b \<Longrightarrow> \<not> py_le a b"
  by (auto simp: py_gt_def py_lt_def py_le_def split: option.splits prod.splits)

lemma py_le_iff_not_gt: "\<not> is_nan a \<Longrightarrow> \<not> is_nan b \<Longrightarrow> py_le a b \<longleftrightarrow> \<not> py_gt a b"
proof -
  assume "\<not> is_nan a" "\<not> is_nan b"
  then obtain p q where "position a = Some p" "position b = Some q"
    by (cases a rule: position.cases; cases b rule: position.cases) simp_all
  then show ?thesis
    by (cases p; cases q) (auto simp: py_gt_def py_lt_def py_le_def)
qed

lemma py_le_by_value:
  "position a = Some (0, x) \<Longrightarrow> position b = Some (0, y) \<Longrightarrow> py_le a b \<longleftrightarrow> x \<le> y"
  by (simp add: py_le_def)

subsection \<open>Loading the persisted document\<close>

lemma save_empty:
  "save_data empty_data =
     \<lparr>incomes = [], expenses = [], budgets = [], goals = [], rest = [],
      saved = [\<lparr>incomes = [], expenses = [], budgets = [], goals = [], rest = []\<rparr>]\<rparr>"
  by (simp add: save_data_def empty_data_def snapshot_def)

lemma field_init_dict:
  "key \<in> set data_keys \<Longrightarrow>
   field key (FinanceManager_init (Parsed (JObj kvs))) = shape (map_of kvs key)"
  by (auto simp: data_keys_def field_def FinanceManager_init_def)

lemma init_not_dict:
  "\<not> is_dict d \<Longrightarrow> FinanceManager_init (Parsed d) = save_data empty_data"
  by (cases d) (simp_all add: FinanceManager_init_def)

text \<open>
  Claim C5. Loading a document that is a record: for each of the four keys, a value that is
  a single record becomes the one-element sequence holding exactly that record, and a scalar
  or absent value becomes the empty sequence. Loading an unparsable document leaves four empty
  sequences and hands exactly that empty state to \<^verbatim>\<open>save_data\<close> at once.
\<close>

theorem load_coerces_fields:
  assumes "key \<in> set data_keys"
  shows "(map_of kvs key = Some (JObj r) \<longrightarrow>
            field key (FinanceManager_init (Parsed (JObj kvs))) = [JObj r])
       \<and> (map_of kvs key = None \<or> (\<exists>v. map_of kvs key = Some v \<and> is_scalar v) \<longrightarrow>
            field key (FinanceManager_init (Parsed (JObj kvs))) = [])
       \<and> FinanceManager_init Unparsable =
            \<lparr>incomes = [], expenses = [], budgets = [], goals = [], rest = [],
             saved = [\<lparr>incomes = [], expenses = [], budgets = [], goals = [], rest = []\<rparr>]\<rparr>"
proof (intro conjI impI)
  assume "map_of kvs key = Some (JObj r)"
  then show "field key (FinanceManager_init (Parsed (JObj kvs))) = [JObj r]"
    using assms by (simp add: field_init_dict)
next
  assume "map_of kvs key = None \<or> (\<exists>v. map_of kvs key = Some v \<and> is_scalar v)"
  then have "shape (map_of kvs key) = []"
  proof
    assume "map_of kvs key = None" then show ?thesis by simp
  next
    assume "\<exists>v. map_of kvs key = Some v \<and> is_scalar v"
    then obtain v where "map_of kvs key = Some v" "is_scalar v" by blast
    then show ?thesis by (cases v) simp_all
  qed
  then show "field key (FinanceManager_init (Parsed (JObj kvs))) = []"
    using assms by (simp add: field_init_dict)
next
  show "FinanceManager_init Unparsable =
            \<lparr>incomes = [], expenses = [], budgets = [], goals = [], rest = [],
             saved = [\<lparr>incomes = [], expenses = [], budgets = [], goals = [], rest = []\<rparr>]\<rparr>"
    by (simp add: FinanceManager_init_def save_empty)
qed

theorem load_coerces_fields_witness:
  "''goals'' \<in> set data_keys
   \<and> goals (FinanceManager_init (Parsed (JObj
        [(''incomes'', JArr []), (''expenses'', JNum 7),
         (''goals'', JObj [(''name'', JStr ''Bike''), (''amount'', JNum 50)])])))
     = [JObj [(''name'', JStr ''Bike''), (''amount'', JNum 50)]]"
  using load_coerces_fields [of "''goals''"
      "[(''incomes'', JArr []), (''expenses'', JNum 7),
        (''goals'', JObj [(''name'', JStr ''Bike''), (''amount'', JNum 50)])]"
      "[(''name'', JStr ''Bike''), (''amount'', JNum 50)]"]
  by (simp add: data_keys_def field_def)

text \<open>
  Claim C6 says that a parsable document with a key that is not list-shaped is replaced
  wholesale by four empty sequences and persisted again. The code repairs that key alone:
  below, \<open>goals\<close> holds a single record; after loading, the income is still there, the goal
  is wrapped in a list, and nothing has been written.
\<close>

theorem load_field_repair_counterexample:
  "incomes (FinanceManager_init (Parsed (JObj
      [(''incomes'', JArr [JObj [(''category'', JStr ''Salary''), (''amount'', JNum 100)]]),
       (''expenses'', JArr []), (''budgets'', JArr []),
       (''goals'', JObj [(''name'', JStr ''Bike''), (''amount'', JNum 50)])])))
     = [JObj [(''category'', JStr ''Salary''), (''amount'', JNum 100)]]
   \<and> goals (FinanceManager_init (Parsed (JObj
      [(''incomes'', JArr [JObj [(''category'', JStr ''Salary''), (''amount'', JNum 100)]]),
       (''expenses'', JArr []), (''budgets'', JArr []),
       (''goals'', JObj [(''name'', JStr ''Bike''), (''amount'', JNum 50)])])))
     = [JObj [(''name'', JStr ''Bike''), (''amount'', JNum 50)]]
   \<and> saved (FinanceManager_init (Parsed (JObj
      [(''incomes'', JArr [JObj [(''category'', JStr ''Salary''), (''amount'', JNum 100)]]),
       (''expenses'', JArr []), (''budgets'', JArr []),
       (''goals'', JObj [(''name'', JStr ''Bike''), (''amount'', JNum 50)])])))
     = []"
  by (simp add: FinanceManager_init_def)

text \<open>
  Claim C6 as amended. The store is replaced by four empty sequences, and that empty state
  persisted at once, when the document is unparsable or parses to something that is not a
  record. A document that parses to a record is repaired key by key and not written back: a
  list is kept as it is, a single record is wrapped in a list, a scalar or absent value becomes
  the empty list.
\<close>

theorem load_resets_only_unreadable:
  assumes "key \<in> set data_keys"
  shows "(f = Unparsable \<or> (\<exists>d. f = Parsed d \<and> \<not> is_dict d) \<longrightarrow>
            FinanceManager_init f =
              \<lparr>incomes = [], expenses = [], budgets = [], goals = [], rest = [],
               saved = [\<lparr>incomes = [], expenses = [], budgets = [], goals = [], rest = []\<rparr>]\<rparr>)
       \<and> (map_of kvs key = Some (JArr xs) \<longrightarrow>
            field key (FinanceManager_init (Parsed (JObj kvs))) = xs)
       \<and> (map_of kvs key = Some (JObj r) \<longrightarrow>
            field key (FinanceManager_init (Parsed (JObj kvs))) = [JObj r])
       \<and> (map_of kvs key = None \<or> (\<exists>v. map_of kvs key = Some v \<and> is_scalar v) \<longrightarrow>
            field key (FinanceManager_init (Parsed (JObj kvs))) = [])
       \<and> saved (FinanceManager_init (Parsed (JObj kvs))) = []"
proof -
  have reset: "f = Unparsable \<or> (\<exists>d. f = Parsed d \<and> \<not> is_dict d) \<longrightarrow>
            FinanceManager_init f =
              \<lparr>incomes = [], expenses = [], budgets = [], goals = [], rest = [],
               saved = [\<lparr>incomes = [], expenses = [], budgets = [], goals = [], rest = []\<rparr>]\<rparr>"
    using init_not_dict by (auto simp: save_empty FinanceManager_init_def)
  have scalar: "shape (map_of kvs key) = []"
    if "map_of kvs key = None \<or> (\<exists>v. map_of kvs key = Some v \<and> is_scalar v)"
    using that
  proof
    assume "map_of kvs key = None" then show ?thesis by simp
  next
    assume "\<exists>v. map_of kvs key = Some v \<and> is_scalar v"
    then obtain v where "map_of kvs key = Some v" "is_scalar v" by blast
    then show ?thesis by (cases v) simp_all
  qed
  have nosave: "saved (FinanceManager_init (Parsed (JObj kvs))) = []"
    by (simp add: FinanceManager_init_def)
  show ?thesis
    using reset scalar nosave assms by (simp add: field_init_dict)
qed

theorem load_resets_only_unreadable_witness:
  "''incomes'' \<in> set data_keys
   \<and> FinanceManager_init (Parsed (JArr [])) =
       \<lparr>incomes = [], expenses = [], budgets = [], goals = [], rest = [],
        saved = [\<lparr>incomes = [], expenses = [], budgets = [], goals = [], rest = []\<rparr>]\<rparr>
   \<and> incomes (FinanceManager_init (Parsed (JObj
        [(''incomes'', JArr [JNum 1]), (''goals'', JNum 2)]))) = [JNum 1]"
  using load_resets_only_unreadable [of "''incomes''" "Parsed (JArr [])"
      "[(''incomes'', JArr [JNum 1]), (''goals'', JNum 2)]" "[JNum 1]" "[]"]
  by (simp add: data_keys_def field_def)

subsection \<open>Totals and available funds\<close>


lemma sum_amounts_append:
  "sum_amounts acc (xs @ ys) =
     (case sum_amounts acc xs of Inl e \<Rightarrow> Inl e | Inr t \<Rightarrow> sum_amounts t ys)"
  by (induction xs arbitrary: acc) (auto split: sum.splits option.splits)







subsection \<open>Removing goals by position\<close>

text \<open>
  Claim C9. For every store state and every index at or beyond the number of live goals,
  \<^verbatim>\<open>FinanceManager.achieve_goal\<close> returns \<^verbatim>\<open>None\<close> and leaves the whole state as it was: the
  four sequences and the record of documents written, so nothing is persisted.
\<close>

theorem achieve_goal_beyond_end:
  assumes "int (length (goals s)) \<le> i"
  shows "achieve_goal i s = (None, s)"
  using assms by (simp add: achieve_goal_def Let_def)

theorem achieve_goal_beyond_end_witness:
  "int (length (goals \<lparr>incomes = [], expenses = [], budgets = [],
        goals = [JObj [(''name'', JStr ''Bike''), (''amount'', JNum 50)]], rest = [], saved = []\<rparr>)) \<le> 1
   \<and> achieve_goal 1 \<lparr>incomes = [], expenses = [], budgets = [],
        goals = [JObj [(''name'', JStr ''Bike''), (''amount'', JNum 50)]], rest = [], saved = []\<rparr>
     = (None, \<lparr>incomes = [], expenses = [], budgets = [],
        goals = [JObj [(''name'', JStr ''Bike''), (''amount'', JNum 50)]], rest = [], saved = []\<rparr>)"
  using achieve_goal_beyond_end [of "\<lparr>incomes = [], expenses = [], budgets = [],
        goals = [JObj [(''name'', JStr ''Bike''), (''amount'', JNum 50)]], rest = [], saved = []\<rparr>" 1]
  by simp

lemma removed_at_take_drop:
  assumes "p < length xs"
  shows "removed_at p xs (take p xs @ drop (Suc p) xs)"
  unfolding removed_at_def
proof (intro conjI allI impI)
  show "Suc (length (take p xs @ drop (Suc p) xs)) = length xs"
    using assms by simp
next
  fix k
  assume k: "k < length (take p xs @ drop (Suc p) xs)"
  show "(take p xs @ drop (Suc p) xs) ! k = (if k < p then xs ! k else xs ! Suc k)"
  proof (cases "k < p")
    case True
    with assms show ?thesis by (simp add: nth_append)
  next
    case False
    with assms k have "Suc p + (k - p) = Suc k" "Suc p + (k - p) \<le> length xs" by simp_all
    with False assms show ?thesis by (simp add: nth_append min_def)
  qed
qed

lemma delete_goal_at:
  assumes "j < length (goals s)" and "i = int j \<or> i = int j - int (length (goals s))"
  shows "delete_goal i s =
           save_data (s\<lparr>goals := take j (goals s) @ drop (Suc j) (goals s)\<rparr>)"
  using assms by (auto simp: delete_goal_def Let_def)

lemma delete_goal_outside:
  assumes "i < - int (length (goals s)) \<or> int (length (goals s)) \<le> i"
  shows "delete_goal i s = s"
  using assms by (auto simp: delete_goal_def Let_def)

text \<open>
  Claim C7 says that every index that is not the position of a live goal is a silent no-op.
  Python counts a negative index from the end, so \<^verbatim>\<open>delete_goal(-1)\<close> on two goals removes
  the second and persists the change.
\<close>

theorem delete_goal_negative_index_counterexample:
  "delete_goal (- 1)
     \<lparr>incomes = [], expenses = [], budgets = [],
      goals = [JObj [(''name'', JStr ''Bike''), (''amount'', JNum 50)],
               JObj [(''name'', JStr ''Trip''), (''amount'', JNum 30)]],
      rest = [], saved = []\<rparr>
   = \<lparr>incomes = [], expenses = [], budgets = [],
      goals = [JObj [(''name'', JStr ''Bike''), (''amount'', JNum 50)]],
      rest = [],
      saved = [\<lparr>incomes = [], expenses = [], budgets = [],
                goals = [JObj [(''name'', JStr ''Bike''), (''amount'', JNum 50)]],
                rest = []\<rparr>]\<rparr>"
  by (simp add: delete_goal_def save_data_def snapshot_def)

text \<open>
  Claim C7 as amended. With \<open>n\<close> live goals, \<^verbatim>\<open>delete_goal(i)\<close> is a silent no-op, leaving
  the whole state unchanged, for every integer \<open>i < -n\<close> or \<open>i \<ge> n\<close>. For \<open>0 \<le> i < n\<close> it
  removes exactly the goal at position \<open>i\<close>, the later goals moving down by one; for
  \<open>-n \<le> i < 0\<close> it removes exactly the goal at position \<open>n + i\<close>. In both cases the other
  sequences stay as they are and the new state is persisted.
\<close>

theorem delete_goal_by_position:
  fixes s :: manager and i :: int
  defines "n \<equiv> int (length (goals s))"
  shows "(i < - n \<or> n \<le> i \<longrightarrow> delete_goal i s = s)
       \<and> (- n \<le> i \<and> i < n \<longrightarrow>
            removed_at (nat (if i < 0 then n + i else i)) (goals s) (goals (delete_goal i s))
            \<and> incomes (delete_goal i s) = incomes s
            \<and> expenses (delete_goal i s) = expenses s
            \<and> budgets (delete_goal i s) = budgets s
            \<and> rest (delete_goal i s) = rest s
            \<and> saved (delete_goal i s) = saved s @ [snapshot (delete_goal i s)])"
proof (intro conjI impI)
  assume "i < - n \<or> n \<le> i"
  then show "delete_goal i s = s"
    unfolding n_def by (rule delete_goal_outside)
next
  assume range: "- n \<le> i \<and> i < n"
  define j where "j = nat (if i < 0 then n + i else i)"
  from range have j: "j < length (goals s)" and i: "i = int j \<or> i = int j - int (length (goals s))"
    unfolding j_def n_def by auto
  have eq: "delete_goal i s =
              save_data (s\<lparr>goals := take j (goals s) @ drop (Suc j) (goals s)\<rparr>)"
    using j i by (rule delete_goal_at)
  have "removed_at j (goals s) (goals (delete_goal i s))"
    using removed_at_take_drop [OF j] by (simp add: eq save_data_def)
  then show "removed_at (nat (if i < 0 then n + i else i)) (goals s) (goals (delete_goal i s))"
    by (simp add: j_def)
  show "incomes (delete_goal i s) = incomes s" by (simp add: eq save_data_def)
  show "expenses (delete_goal i s) = expenses s" by (simp add: eq save_data_def)
  show "budgets (delete_goal i s) = budgets s" by (simp add: eq save_data_def)
  show "rest (delete_goal i s) = rest s" by (simp add: eq save_data_def)
  show "saved (delete_goal i s) = saved s @ [snapshot (delete_goal i s)]"
    by (simp add: eq save_data_def snapshot_def)
qed

theorem delete_goal_by_position_witness:
  "delete_goal 5
     \<lparr>incomes = [], expenses = [], budgets = [],
      goals = [JStr ''a'', JStr ''b'', JStr ''c''], rest = [], saved = []\<rparr>
   = \<lparr>incomes = [], expenses = [], budgets = [],
      goals = [JStr ''a'', JStr ''b'', JStr ''c''], rest = [], saved = []\<rparr>
   \<and> removed_at 1 [JStr ''a'', JStr ''b'', JStr ''c'']
        (goals (delete_goal 1
           \<lparr>incomes = [], expenses = [], budgets = [],
            goals = [JStr ''a'', JStr ''b'', JStr ''c''], rest = [], saved = []\<rparr>))"
  using delete_goal_by_position [of 5 "\<lparr>incomes = [], expenses = [], budgets = [],
      goals = [JStr ''a'', JStr ''b'', JStr ''c''], rest = [], saved = []\<rparr>"]
    delete_goal_by_position [of 1 "\<lparr>incomes = [], expenses = [], budgets = [],
      goals = [JStr ''a'', JStr ''b'', JStr ''c''], rest = [], saved = []\<rparr>"]
  by simp

subsection \<open>Adding an expense: the funds check\<close>

lemmas text_simps = normalize_category_def ascii_text_def ascii_strip_def is_space_def
  to_upper_def to_lower_def

lemma add_expense_fields:
  "expenses (add_expense category amount today s) = expenses s @ [dated_entry category amount today]"
  "incomes (add_expense category amount today s) = incomes s"
  "budgets (add_expense category amount today s) = budgets s"
  "goals (add_expense category amount today s) = goals s"
  "rest (add_expense category amount today s) = rest s"
  by (simp_all add: add_expense_def save_data_def)

text \<open>
  Claim C2. For every store state and every amount, \<^verbatim>\<open>can_add_expense(amount)\<close> returns
  \<^verbatim>\<open>True\<close> exactly when the amount is at most the available funds (and \<^verbatim>\<open>False\<close> exactly
  when it is not); it is a query, so it has no state to return. The comparison is Python's
  \<^verbatim>\<open><=\<close>, which compares two finite numbers by their exact values. Submitting an expense
  whose amount is not at most the available funds, in particular one that exceeds them, is
  rejected, as an input error or for insufficient funds, and leaves the whole store as it was.
\<close>

theorem can_add_expense_guard:
  shows "(can_add_expense s amount = Inr True \<longleftrightarrow>
            (\<exists>funds. get_available_funds s = Inr funds \<and> py_le amount funds))
       \<and> (can_add_expense s amount = Inr False \<longleftrightarrow>
            (\<exists>funds. get_available_funds s = Inr funds \<and> \<not> py_le amount funds))
       \<and> (position amount = Some (0, x) \<and> position funds = Some (0, y) \<longrightarrow>
            (py_le amount funds \<longleftrightarrow> x \<le> y))
       \<and> (py_gt amount funds \<longrightarrow> \<not> py_le amount funds)
       \<and> (get_available_funds s = Inr funds \<and> \<not> py_le (NFlt amt) funds \<longrightarrow>
            ExpenseFrame_add_expense py entry_cat (Some amt) today s
              \<in> {(InputError, s), (InsufficientFunds, s)})"
proof (intro conjI impI)
  show "can_add_expense s amount = Inr True \<longleftrightarrow>
            (\<exists>funds. get_available_funds s = Inr funds \<and> py_le amount funds)"
    by (auto simp: can_add_expense_def split: sum.splits)
  show "can_add_expense s amount = Inr False \<longleftrightarrow>
            (\<exists>funds. get_available_funds s = Inr funds \<and> \<not> py_le amount funds)"
    by (auto simp: can_add_expense_def split: sum.splits)
next
  assume "position amount = Some (0, x) \<and> position funds = Some (0, y)"
  then show "py_le amount funds \<longleftrightarrow> x \<le> y" by (simp add: py_le_by_value)
next
  assume "py_gt amount funds"
  then show "\<not> py_le amount funds" by (rule py_gt_not_le)
next
  assume "get_available_funds s = Inr funds \<and> \<not> py_le (NFlt amt) funds"
  then have "can_add_expense s (NFlt amt) = Inr False"
    by (simp add: can_add_expense_def)
  then show "ExpenseFrame_add_expense py entry_cat (Some amt) today s
              \<in> {(InputError, s), (InsufficientFunds, s)}"
    by (simp add: ExpenseFrame_add_expense_def Let_def)
qed

theorem can_add_expense_guard_witness:
  "get_available_funds
     \<lparr>incomes = [JObj [(''category'', JStr ''Salary''), (''amount'', JFloat (FNum 60))]],
      expenses = [], budgets = [], goals = [], rest = [], saved = []\<rparr> = Inr (NFlt (FNum 60))
   \<and> py_gt (NFlt (FNum 70)) (NFlt (FNum 60))
   \<and> ExpenseFrame_add_expense ascii_text ''Food'' (Some (FNum 70)) ''2024-05-01''
       \<lparr>incomes = [JObj [(''category'', JStr ''Salary''), (''amount'', JFloat (FNum 60))]],
        expenses = [], budgets = [], goals = [], rest = [], saved = []\<rparr>
     = (InsufficientFunds,
        \<lparr>incomes = [JObj [(''category'', JStr ''Salary''), (''amount'', JFloat (FNum 60))]],
         expenses = [], budgets = [], goals = [], rest = [], saved = []\<rparr>)"
proof -
  let ?s = "\<lparr>incomes = [JObj [(''category'', JStr ''Salary''), (''amount'', JFloat (FNum 60))]],
      expenses = [], budgets = [], goals = [], rest = [], saved = []\<rparr>"
  have r60: "round64 60 = FNum 60" using round64_of_int [of 60] by simp
  have funds: "get_available_funds ?s = Inr (NFlt (FNum 60))"
    by (simp add: get_available_funds_def get_total_income_def get_total_expense_def
        to_float_small [of 0, simplified] r60 fsub_def)
  have gt: "py_gt (NFlt (FNum 70)) (NFlt (FNum 60))"
    by (simp add: py_gt_def py_lt_def)
  have nle: "\<not> py_le (NFlt (FNum 70)) (NFlt (FNum 60))"
    using can_add_expense_guard [of ?s "NFlt (FNum 70)" 70 "NFlt (FNum 60)" 60] gt by simp
  have cat: "strip ascii_text ''Food'' \<noteq> []"
    by (simp add: text_simps)
  from can_add_expense_guard [of ?s "NFlt (FNum 70)" 70 "NFlt (FNum 60)" 60 "FNum 70"
      ascii_text "''Food''" "''2024-05-01''"] funds nle
  have "ExpenseFrame_add_expense ascii_text ''Food'' (Some (FNum 70)) ''2024-05-01'' ?s
          \<in> {(InputError, ?s), (InsufficientFunds, ?s)}"
    by simp
  moreover have "fst (ExpenseFrame_add_expense ascii_text ''Food'' (Some (FNum 70))
                        ''2024-05-01'' ?s) \<noteq> InputError"
    using cat by (simp add: ExpenseFrame_add_expense_def Let_def py_le_def split: sum.splits)
  ultimately show ?thesis using funds gt by auto
qed

subsection \<open>Adding an expense: the budget check\<close>









subsection \<open>Achieving one goal\<close>

lemma delete_goal_keeps:
  "incomes (delete_goal i s) = incomes s"
  "expenses (delete_goal i s) = expenses s"
  "budgets (delete_goal i s) = budgets s"
  "rest (delete_goal i s) = rest s"
  by (simp_all add: delete_goal_def Let_def save_data_def)

lemma sum_amounts_snoc:
  assumes "sum_amounts acc xs = Inr t" and "py_num amount = Some a"
  shows "sum_amounts acc (xs @ [dated_entry category amount today]) =
           (case py_add t a of Inl e \<Rightarrow> Inl e | Inr t' \<Rightarrow> Inr t')"
  using assms by (simp add: sum_amounts_append dated_entry_def split: sum.splits)

lemma py_sub_int_result:
  assumes "py_sub x y = Inr (NInt f)"
  obtains i e where "x = NInt i" and "y = NInt e" and "f = i - e"
  using assms by (cases x; cases y) (auto split: sum.splits)

lemma funds_after_expense:
  assumes "get_available_funds s = Inr (NInt f)"
    and "incomes s' = incomes s" and "expenses s' = expenses s"
  shows "get_available_funds (add_expense category (JNum n) today s') = Inr (NInt (f - n))"
    and "get_available_funds (add_expense category (JBool b) today s')
           = Inr (NInt (f - (if b then 1 else 0)))"
proof -
  from assms(1) obtain ti te where
    ti: "sum_amounts (NInt 0) (incomes s) = Inr ti"
    and te: "sum_amounts (NInt 0) (expenses s) = Inr te"
    and sub: "py_sub ti te = Inr (NInt f)"
    by (auto simp: get_available_funds_def get_total_income_def get_total_expense_def
        split: sum.splits)
  from sub obtain i e where ie: "ti = NInt i" "te = NInt e" "f = i - e"
    by (rule py_sub_int_result)
  have step: "sum_amounts (NInt 0) (expenses s @ [dated_entry category amount today])
                = Inr (NInt (e + k))"
    if "py_num amount = Some (NInt k)" for amount k
    using sum_amounts_snoc [OF te that, of category today] by (simp add: ie)
  show "get_available_funds (add_expense category (JNum n) today s') = Inr (NInt (f - n))"
    using step [of "JNum n" n] ti ie assms(2,3)
    by (simp add: get_available_funds_def get_total_income_def get_total_expense_def
        add_expense_fields)
  show "get_available_funds (add_expense category (JBool b) today s')
           = Inr (NInt (f - (if b then 1 else 0)))"
    using step [of "JBool b" "if b then 1 else 0"] ti ie assms(2,3)
    by (simp add: get_available_funds_def get_total_income_def get_total_expense_def
        add_expense_fields)
qed

lemma achieve_goal_step:
  assumes "0 \<le> idx" and "idx < int (length (goals s))"
    and "get_available_funds s = Inr funds"
    and "py_num (goal_amt (goals s ! nat idx)) = Some a"
  shows "SummaryFrame_achieve_goal repr today idx s =
           (if py_gt a funds then (InsufficientFunds, s)
            else (Done, add_expense (goal_category repr (goal_name repr (goals s ! nat idx)))
                          (goal_amt (goals s ! nat idx)) today (delete_goal idx s)))"
  using assms by (simp add: SummaryFrame_achieve_goal_def Let_def)

text \<open>The doubles of the decimal texts 1.7, 0.6 and 1.1, and the roundings met when they are
  added to and subtracted from each other.\<close>

lemma double_17: "round64 (17 / 10) = FNum (7656119366529843 / 4503599627370496)"
  using round64_nearest [of 0 "17 / 10" "1 / 4503599627370496" 7656119366529843] by simp

lemma double_06: "round64 (3 / 5) = FNum (5404319552844595 / 9007199254740992)"
  using round64_nearest [of "- 1" "3 / 5" "1 / 9007199254740992" 5404319552844595] by simp

lemma double_11: "round64 (11 / 10) = FNum (2476979795053773 / 2251799813685248)"
  using round64_nearest [of 0 "11 / 10" "1 / 4503599627370496" 4953959590107546] by simp

lemma round_17:
  "round64 (7656119366529843 / 4503599627370496) = FNum (7656119366529843 / 4503599627370496)"
  using round64_nearest [of 0 "7656119366529843 / 4503599627370496"
      "1 / 4503599627370496" 7656119366529843]
  by simp

lemma round_06:
  "round64 (5404319552844595 / 9007199254740992) = FNum (5404319552844595 / 9007199254740992)"
  using round64_nearest [of "- 1" "5404319552844595 / 9007199254740992"
      "1 / 9007199254740992" 5404319552844595]
  by simp

lemma round_17_minus_06:
  "round64 (9907919180215091 / 9007199254740992) = FNum (2476979795053773 / 2251799813685248)"
  using round64_nearest [of 0 "9907919180215091 / 9007199254740992"
      "1 / 4503599627370496" 4953959590107546]
  by simp

lemma round_06_plus_11:
  "round64 (15312238733059687 / 9007199254740992) = FNum (1914029841632461 / 1125899906842624)"
  using round64_nearest [of 0 "15312238733059687 / 9007199254740992"
      "1 / 4503599627370496" 7656119366529844]
  by simp

lemma round_minus_ulp:
  "round64 (- (1 / 4503599627370496)) = FNum (- (1 / 4503599627370496))"
  using round64_nearest [of "- 52" "- (1 / 4503599627370496)"
      "1 / 20282409603651670423947251286016" 4503599627370496]
  by simp

text \<open>
  Claim C4 says that a goal is achieved exactly when its amount is at most the available
  funds, and that the funds stay \<open>\<ge> 0\<close>. The amounts are floats. With an income of 1.7, an
  expense of 0.6 and a goal of 1.1, all typed into the forms, the funds are 1.1, the goal is
  achieved, and the funds are then \<open>1.7 - (0.6 + 1.1) = -2 powi (- 52)\<close>, below 0. With funds
  of 60 and a goal whose amount was typed as \<open>nan\<close> (which \<^verbatim>\<open>amt <= 0\<close> lets through), the
  goal is achieved although \<^verbatim>\<open>nan <= 60\<close> is false.
\<close>

theorem achieve_goal_float_counterexample:
  "get_available_funds
     \<lparr>incomes = [JObj [(''category'', JStr ''Salary''), (''amount'', JFloat (round64 (17 / 10))),
                        (''date'', JStr ''2024-05-01'')]],
      expenses = [JObj [(''category'', JStr ''Food''), (''amount'', JFloat (round64 (6 / 10))),
                         (''date'', JStr ''2024-05-01'')]],
      budgets = [],
      goals = [JObj [(''name'', JStr ''Bike''), (''amount'', JFloat (round64 (11 / 10)))]],
      rest = [], saved = []\<rparr>
     = Inr (NFlt (round64 (11 / 10)))
   \<and> py_le (NInt 0) (NFlt (round64 (11 / 10)))
   \<and> fst (SummaryFrame_achieve_goal (\<lambda>v. ''?'') ''2024-05-02'' 0
       \<lparr>incomes = [JObj [(''category'', JStr ''Salary''), (''amount'', JFloat (round64 (17 / 10))),
                          (''date'', JStr ''2024-05-01'')]],
        expenses = [JObj [(''category'', JStr ''Food''), (''amount'', JFloat (round64 (6 / 10))),
                           (''date'', JStr ''2024-05-01'')]],
        budgets = [],
        goals = [JObj [(''name'', JStr ''Bike''), (''amount'', JFloat (round64 (11 / 10)))]],
        rest = [], saved = []\<rparr>) = Done
   \<and> get_available_funds (snd (SummaryFrame_achieve_goal (\<lambda>v. ''?'') ''2024-05-02'' 0
       \<lparr>incomes = [JObj [(''category'', JStr ''Salary''), (''amount'', JFloat (round64 (17 / 10))),
                          (''date'', JStr ''2024-05-01'')]],
        expenses = [JObj [(''category'', JStr ''Food''), (''amount'', JFloat (round64 (6 / 10))),
                           (''date'', JStr ''2024-05-01'')]],
        budgets = [],
        goals = [JObj [(''name'', JStr ''Bike''), (''amount'', JFloat (round64 (11 / 10)))]],
        rest = [], saved = []\<rparr>))
     = Inr (NFlt (FNum (- 1 / 4503599627370496)))
   \<and> \<not> py_le (NInt 0) (NFlt (FNum (- 1 / 4503599627370496)))
   \<and> get_available_funds
       \<lparr>incomes = [JObj [(''category'', JStr ''Salary''), (''amount'', JNum 60)]],
        expenses = [], budgets = [],
        goals = [JObj [(''name'', JStr ''Trip''), (''amount'', JFloat FNaN)]],
        rest = [], saved = []\<rparr>
     = Inr (NInt 60)
   \<and> \<not> py_le (NFlt FNaN) (NInt 60)
   \<and> fst (SummaryFrame_achieve_goal (\<lambda>v. ''?'') ''2024-05-02'' 0
       \<lparr>incomes = [JObj [(''category'', JStr ''Salary''), (''amount'', JNum 60)]],
        expenses = [], budgets = [],
        goals = [JObj [(''name'', JStr ''Trip''), (''amount'', JFloat FNaN)]],
        rest = [], saved = []\<rparr>) = Done"
  by (simp add: double_17 double_06 double_11 SummaryFrame_achieve_goal_def
      get_available_funds_def get_total_income_def get_total_expense_def
      to_float_small [of 0, simplified] round_17 round_06 round_17_minus_06
      round_06_plus_11 round_minus_ulp fsub_def py_le_def py_gt_def py_lt_def
      delete_goal_def add_expense_def dated_entry_def save_data_def snapshot_def)

text \<open>
  Claim C4 as amended. Take a store state on which the available funds are defined and a
  live goal \<open>G\<close>, at position \<open>idx\<close>, whose amount is a number \<open>a\<close> (0 when the goal has no
  amount). Achieving \<open>G\<close> succeeds if and only if \<^verbatim>\<open>a > funds\<close> is false, which for an
  amount and funds other than NaN means \<open>a \<le> funds\<close>. On success \<open>G\<close> is removed from the
  goal sequence and exactly one expense is appended, with the goal's amount and the category
  \<open>Goal ("<name>")\<close>; incomes and budgets stay. On failure the store is unchanged. When the
  funds and the goal's amount are integers, the funds after a success are \<open>funds - a\<close>,
  which is \<open>\<ge> 0\<close>.
\<close>

theorem achieve_goal_checks_funds:
  assumes "0 \<le> idx" and "idx < int (length (goals s))"
    and "get_available_funds s = Inr funds"
    and "py_num (goal_amt (goals s ! nat idx)) = Some a"
  shows "(fst (SummaryFrame_achieve_goal repr today idx s) = Done \<longleftrightarrow> \<not> py_gt a funds)
       \<and> (\<not> is_nan a \<and> \<not> is_nan funds \<longrightarrow>
            (fst (SummaryFrame_achieve_goal repr today idx s) = Done \<longleftrightarrow> py_le a funds))
       \<and> (\<not> py_gt a funds \<longrightarrow>
            removed_at (nat idx) (goals s)
              (goals (snd (SummaryFrame_achieve_goal repr today idx s)))
            \<and> expenses (snd (SummaryFrame_achieve_goal repr today idx s))
                = expenses s @
                  [JObj [(''category'',
                            JStr (goal_category repr (goal_name repr (goals s ! nat idx)))),
                         (''amount'', goal_amt (goals s ! nat idx)),
                         (''date'', JStr today)]]
            \<and> incomes (snd (SummaryFrame_achieve_goal repr today idx s)) = incomes s
            \<and> budgets (snd (SummaryFrame_achieve_goal repr today idx s)) = budgets s)
       \<and> (py_item (goals s ! nat idx) ''name'' = Inr (JStr name) \<longrightarrow>
            goal_category repr (goal_name repr (goals s ! nat idx))
              = ''Goal ('' @ [CHR 0x22] @ name @ [CHR 0x22] @ '')'')
       \<and> (py_gt a funds \<longrightarrow> SummaryFrame_achieve_goal repr today idx s = (InsufficientFunds, s))
       \<and> (funds = NInt f \<and> a = NInt n \<and> n \<le> f \<longrightarrow>
            get_available_funds (snd (SummaryFrame_achieve_goal repr today idx s))
              = Inr (NInt (f - n))
            \<and> 0 \<le> f - n)"
proof -
  let ?G = "goals s ! nat idx"
  let ?s' = "add_expense (goal_category repr (goal_name repr ?G)) (goal_amt ?G) today
               (delete_goal idx s)"
  note step = achieve_goal_step [OF assms, of repr today]
  have fail: "SummaryFrame_achieve_goal repr today idx s = (InsufficientFunds, s)"
    if "py_gt a funds"
    using that step by simp
  have ok: "SummaryFrame_achieve_goal repr today idx s = (Done, ?s')" if "\<not> py_gt a funds"
    using that step by simp
  have iff: "fst (SummaryFrame_achieve_goal repr today idx s) = Done \<longleftrightarrow> \<not> py_gt a funds"
    using step by simp
  have iff_le: "fst (SummaryFrame_achieve_goal repr today idx s) = Done \<longleftrightarrow> py_le a funds"
    if "\<not> is_nan a \<and> \<not> is_nan funds"
    using that iff by (simp add: py_le_iff_not_gt)
  have p: "nat idx < length (goals s)"
    using assms(1,2) by simp
  have del: "delete_goal idx s =
               save_data (s\<lparr>goals := take (nat idx) (goals s) @ drop (Suc (nat idx)) (goals s)\<rparr>)"
    using p assms(1) by (intro delete_goal_at) simp_all
  have gs: "removed_at (nat idx) (goals s) (goals ?s')"
    using removed_at_take_drop [OF p] by (simp add: add_expense_fields del save_data_def)
  have ex: "expenses ?s' = expenses s @
                  [JObj [(''category'', JStr (goal_category repr (goal_name repr ?G))),
                         (''amount'', goal_amt ?G), (''date'', JStr today)]]"
    by (simp add: add_expense_fields delete_goal_keeps dated_entry_def)
  have inc: "incomes ?s' = incomes s" and bud: "budgets ?s' = budgets s"
    by (simp_all add: add_expense_fields delete_goal_keeps)
  have label: "goal_category repr (goal_name repr ?G)
              = ''Goal ('' @ [CHR 0x22] @ name @ [CHR 0x22] @ '')''"
    if "py_item ?G ''name'' = Inr (JStr name)"
  proof -
    from that obtain kvs where "?G = JObj kvs" "map_of kvs ''name'' = Some (JStr name)"
      by (cases ?G) (auto split: option.splits)
    then show ?thesis by (simp add: goal_category_def)
  qed
  have ints: "get_available_funds (snd (SummaryFrame_achieve_goal repr today idx s))
                = Inr (NInt (f - n)) \<and> 0 \<le> f - n"
    if h: "funds = NInt f \<and> a = NInt n \<and> n \<le> f"
  proof -
    from h have "\<not> py_gt a funds" by simp
    then have res: "snd (SummaryFrame_achieve_goal repr today idx s) = ?s'" by (simp add: ok)
    have fu: "get_available_funds s = Inr (NInt f)" using assms(3) h by simp
    from assms(4) h consider "goal_amt ?G = JNum n"
      | b where "goal_amt ?G = JBool b" "n = (if b then 1 else 0)"
      by (cases "goal_amt ?G") (auto split: if_splits)
    then have "get_available_funds ?s' = Inr (NInt (f - n))"
    proof cases
      case 1
      then show ?thesis
        using funds_after_expense(1) [OF fu, of "delete_goal idx s" _ n today]
        by (simp add: delete_goal_keeps)
    next
      case 2
      then show ?thesis
        using funds_after_expense(2) [OF fu, of "delete_goal idx s" _ b today]
        by (simp add: delete_goal_keeps)
    qed
    with res h show ?thesis by simp
  qed
  show ?thesis
    using iff iff_le fail label ints by (auto simp: ok gs ex inc bud)
qed

theorem achieve_goal_checks_funds_witness:
  "get_available_funds
     \<lparr>incomes = [JObj [(''category'', JStr ''Salary''), (''amount'', JNum 60)]],
      expenses = [], budgets = [],
      goals = [JObj [(''name'', JStr ''Bike''), (''amount'', JNum 50)],
               JObj [(''name'', JStr ''Trip''), (''amount'', JFloat (FNum 70))]],
      rest = [], saved = []\<rparr> = Inr (NInt 60)
   \<and> fst (SummaryFrame_achieve_goal (\<lambda>v. ''?'') ''2024-05-01'' 0
       \<lparr>incomes = [JObj [(''category'', JStr ''Salary''), (''amount'', JNum 60)]],
        expenses = [], budgets = [],
        goals = [JObj [(''name'', JStr ''Bike''), (''amount'', JNum 50)],
                 JObj [(''name'', JStr ''Trip''), (''amount'', JFloat (FNum 70))]],
        rest = [], saved = []\<rparr>) = Done
   \<and> get_available_funds (snd (SummaryFrame_achieve_goal (\<lambda>v. ''?'') ''2024-05-01'' 0
       \<lparr>incomes = [JObj [(''category'', JStr ''Salary''), (''amount'', JNum 60)]],
        expenses = [], budgets = [],
        goals = [JObj [(''name'', JStr ''Bike''), (''amount'', JNum 50)],
                 JObj [(''name'', JStr ''Trip''), (''amount'', JFloat (FNum 70))]],
        rest = [], saved = []\<rparr>)) = Inr (NInt 10)
   \<and> SummaryFrame_achieve_goal (\<lambda>v. ''?'') ''2024-05-01'' 1
       \<lparr>incomes = [JObj [(''category'', JStr ''Salary''), (''amount'', JNum 60)]],
        expenses = [], budgets = [],
        goals = [JObj [(''name'', JStr ''Bike''), (''amount'', JNum 50)],
                 JObj [(''name'', JStr ''Trip''), (''amount'', JFloat (FNum 70))]],
        rest = [], saved = []\<rparr>
     = (InsufficientFunds,
        \<lparr>incomes = [JObj [(''category'', JStr ''Salary''), (''amount'', JNum 60)]],
         expenses = [], budgets = [],
         goals = [JObj [(''name'', JStr ''Bike''), (''amount'', JNum 50)],
                  JObj [(''name'', JStr ''Trip''), (''amount'', JFloat (FNum 70))]],
         rest = [], saved = []\<rparr>)"
proof -
  let ?s = "\<lparr>incomes = [JObj [(''category'', JStr ''Salary''), (''amount'', JNum 60)]],
      expenses = [], budgets = [],
      goals = [JObj [(''name'', JStr ''Bike''), (''amount'', JNum 50)],
               JObj [(''name'', JStr ''Trip''), (''amount'', JFloat (FNum 70))]],
      rest = [], saved = []\<rparr>"
  have funds: "get_available_funds ?s = Inr (NInt 60)"
    by (simp add: get_available_funds_def get_total_income_def get_total_expense_def)
  have a0: "py_num (goal_amt (goals ?s ! nat 0)) = Some (NInt 50)" by simp
  have a1: "py_num (goal_amt (goals ?s ! nat 1)) = Some (NFlt (FNum 70))" by simp
  have gt: "py_gt (NFlt (FNum 70)) (NInt 60)" by (simp add: py_gt_def py_lt_def)
  from achieve_goal_checks_funds [of 0 ?s "NInt 60" "NInt 50" "\<lambda>v. ''?''" "''2024-05-01''"
         "''Bike''" 60 50, OF _ _ funds a0]
       achieve_goal_checks_funds [of 1 ?s "NInt 60" "NFlt (FNum 70)" "\<lambda>v. ''?''" "''2024-05-01''"
         "''Trip''" 60 70, OF _ _ funds a1]
       funds gt
  show ?thesis by simp
qed

subsection \<open>The categories in use\<close>

lemma py_eq_text: "py_eq (JStr t) (JStr u) \<longleftrightarrow> t = u"
  by (simp add: py_eq_def)

lemma list_ex_py_eq_text: "list_ex (\<lambda>u. py_eq u (JStr t)) (map JStr cs) \<longleftrightarrow> t \<in> set cs"
  by (induction cs) (auto simp: py_eq_text)

lemma py_get_category_text:
  "category_is_text x \<Longrightarrow> py_get x ''category'' (JStr []) = Inr (JStr (category_text x))"
  by (cases x) (auto split: option.splits json.splits)

lemma add_categories_text:
  assumes "list_all category_is_text xs" and "distinct cs"
  shows "\<exists>cs'. add_categories (map JStr cs) xs = Inr (map JStr cs') \<and> distinct cs'
               \<and> set cs' = set cs \<union> category_text ` set xs"
  using assms
proof (induction xs arbitrary: cs)
  case Nil
  then show ?case by (intro exI [of _ cs]) simp
next
  case (Cons x xs)
  let ?t = "category_text x"
  let ?cs = "if ?t \<in> set cs then cs else cs @ [?t]"
  from Cons.prems have x: "category_is_text x" and xs: "list_all category_is_text xs"
    by simp_all
  have step: "add_categories (map JStr cs) (x # xs) = add_categories (map JStr ?cs) xs"
    using py_get_category_text [OF x] by (simp add: list_ex_py_eq_text)
  have "distinct ?cs" using Cons.prems(2) by simp
  from Cons.IH [OF xs this] obtain cs' where
    "add_categories (map JStr ?cs) xs = Inr (map JStr cs')" "distinct cs'"
    "set cs' = set ?cs \<union> category_text ` set xs"
    by blast
  with step show ?case by (intro exI [of _ cs']) auto
qed

lemma py_sorted_text: "py_sorted (map JStr cs) = Inr (map JStr (sort cs))"
proof (cases "length cs \<le> 1")
  case True
  then have "sort cs = cs"
    by (cases cs) (simp_all add: le_Suc_eq)
  with True show ?thesis by (simp add: py_sorted_def)
next
  case False
  have "list_all is_str (map JStr cs)" by (induction cs) simp_all
  moreover have "map str_of (map JStr cs) = cs" by (induction cs) simp_all
  ultimately show ?thesis using False by (simp add: py_sorted_def)
qed

lemma categories_text:
  assumes "list_all category_is_text (incomes s)" and "list_all category_is_text (expenses s)"
  shows "categories s =
           Inr (map JStr (sorted_list_of_set
                  (category_text ` (set (incomes s) \<union> set (expenses s)))))"
proof -
  from add_categories_text [OF assms(1), of "[]"] obtain c1 where
    c1: "add_categories [] (incomes s) = Inr (map JStr c1)" "distinct c1"
        "set c1 = category_text ` set (incomes s)"
    by auto
  from add_categories_text [OF assms(2) c1(2)] obtain c2 where
    c2: "add_categories (map JStr c1) (expenses s) = Inr (map JStr c2)" "distinct c2"
        "set c2 = set c1 \<union> category_text ` set (expenses s)"
    by auto
  have "sort c2 = sorted_list_of_set (set c2)"
    using c2(2) by (simp add: sorted_list_of_set_sort_remdups distinct_remdups_id)
  moreover have "set c2 = category_text ` (set (incomes s) \<union> set (expenses s))"
    using c1(3) c2(3) by auto
  ultimately show ?thesis
    using c1(1) c2(1) by (simp add: categories_def py_sorted_text)
qed

text \<open>
  Claim C8. For every store state whose incomes and expenses are records with a text
  category (a record without the field counts under the empty text, the code's default),
  \<^verbatim>\<open>categories()\<close> returns the raw, unnormalized category texts of all incomes and all
  expenses, without duplicates, in ascending text order. With the income category
  \<open>food\<close> and the expense category \<open>Food\<close> it returns exactly \<open>Food\<close>, \<open>food\<close>.
\<close>

theorem categories_sorted_union:
  shows "(list_all category_is_text (incomes s) \<and> list_all category_is_text (expenses s) \<longrightarrow>
            categories s =
              Inr (map JStr (sorted_list_of_set
                     (category_text ` (set (incomes s) \<union> set (expenses s))))))
       \<and> (incomes s = [JObj [(''category'', JStr ''food'')]]
            \<and> expenses s = [JObj [(''category'', JStr ''Food'')]] \<longrightarrow>
            categories s = Inr [JStr ''Food'', JStr ''food''])"
proof (intro conjI impI)
  assume "list_all category_is_text (incomes s) \<and> list_all category_is_text (expenses s)"
  then show "categories s =
              Inr (map JStr (sorted_list_of_set
                     (category_text ` (set (incomes s) \<union> set (expenses s)))))"
    by (simp add: categories_text)
next
  assume "incomes s = [JObj [(''category'', JStr ''food'')]]
            \<and> expenses s = [JObj [(''category'', JStr ''Food'')]]"
  moreover have "sort [''food'', ''Food''] = [''Food'', ''food'']" by code_simp
  ultimately show "categories s = Inr [JStr ''Food'', JStr ''food'']"
    by (simp add: categories_def py_eq_def py_sorted_def)
qed

theorem categories_sorted_union_witness:
  "categories
     \<lparr>incomes = [JObj [(''category'', JStr ''food''), (''amount'', JNum 5)],
                 JObj [(''category'', JStr ''Rent'')]],
      expenses = [JObj [(''category'', JStr ''Food'')],
                  JObj [(''category'', JStr ''food'')]],
      budgets = [], goals = [], rest = [], saved = []\<rparr>
   = Inr (map JStr (sorted_list_of_set {''food'', ''Rent'', ''Food''}))
   \<and> categories
     \<lparr>incomes = [JObj [(''category'', JStr ''food'')]],
      expenses = [JObj [(''category'', JStr ''Food'')]],
      budgets = [], goals = [], rest = [], saved = []\<rparr>
   = Inr [JStr ''Food'', JStr ''food'']"
  using categories_sorted_union [of "\<lparr>incomes = [JObj [(''category'', JStr ''food''), (''amount'', JNum 5)],
                 JObj [(''category'', JStr ''Rent'')]],
      expenses = [JObj [(''category'', JStr ''Food'')],
                  JObj [(''category'', JStr ''food'')]],
      budgets = [], goals = [], rest = [], saved = []\<rparr>"]
    categories_sorted_union [of "\<lparr>incomes = [JObj [(''category'', JStr ''food'')]],
      expenses = [JObj [(''category'', JStr ''Food'')]],
      budgets = [], goals = [], rest = [], saved = []\<rparr>"]
  by (simp add: insert_commute)

subsection \<open>Achieving all goals\<close>

text \<open>
  Claim C1 (every goal that fails the funds check remains in the goal sequence). The loop of
  \<^verbatim>\<open>SummaryFrame.achieve_all_goals\<close> removes an achieved goal with \<^verbatim>\<open>delete_goal(0)\<close>, which
  is the achieved goal only while no earlier goal was skipped. With funds of 60 and the goals
  G1 (100) and G2 (30), G1 fails the check and G2 passes it: the names are reported as the
  claim says and one expense is recorded for G2, but the goal removed is G1 and G2 stays.
\<close>

theorem achieve_all_goals_removes_skipped_goal:
  "SummaryFrame_achieve_all_goals (\<lambda>v. ''?'') ''2024-05-01''
     \<lparr>incomes = [JObj [(''category'', JStr ''Salary''), (''amount'', JNum 60)]],
      expenses = [], budgets = [],
      goals = [JObj [(''name'', JStr ''G1''), (''amount'', JNum 100)],
               JObj [(''name'', JStr ''G2''), (''amount'', JNum 30)]],
      rest = [], saved = []\<rparr>
   = (Inr ([JStr ''G2''], [JStr ''G1'']),
      \<lparr>incomes = [JObj [(''category'', JStr ''Salary''), (''amount'', JNum 60)]],
       expenses = [JObj [(''category'', JStr (''Goal ('' @ [CHR 0x22] @ ''G2'' @ [CHR 0x22] @ '')'')),
                         (''amount'', JNum 30), (''date'', JStr ''2024-05-01'')]],
       budgets = [],
       goals = [JObj [(''name'', JStr ''G2''), (''amount'', JNum 30)]],
       rest = [],
       saved =
         [\<lparr>incomes = [JObj [(''category'', JStr ''Salary''), (''amount'', JNum 60)]],
           expenses = [], budgets = [],
           goals = [JObj [(''name'', JStr ''G2''), (''amount'', JNum 30)]],
           rest = []\<rparr>,
          \<lparr>incomes = [JObj [(''category'', JStr ''Salary''), (''amount'', JNum 60)]],
           expenses = [JObj [(''category'', JStr (''Goal ('' @ [CHR 0x22] @ ''G2'' @ [CHR 0x22] @ '')'')),
                             (''amount'', JNum 30), (''date'', JStr ''2024-05-01'')]],
           budgets = [],
           goals = [JObj [(''name'', JStr ''G2''), (''amount'', JNum 30)]],
           rest = []\<rparr>]\<rparr>)"
  by (simp add: SummaryFrame_achieve_all_goals_def get_available_funds_def
      get_total_income_def get_total_expense_def delete_goal_def add_expense_def
      dated_entry_def goal_category_def save_data_def snapshot_def py_le_def)

end
